theory Spec2Isabelle
  imports Main "HOL-Library.Word" "HOL-Library.While_Combinator"
begin

section \<open>Data model of \<open>data_file.cpp\<close>\<close>

text \<open>
  C++ \<open>int\<close> is a 32-bit two's complement value: header fields and file ordinals are
  \<open>32 word\<close>, read as signed with \<open>sint\<close>; \<open>+\<close> and \<open>-\<close> wrap. The sizes computed by
  \<open>DataFile::open\<close> live in a C++ \<open>long\<close>; they are modelled as \<open>int\<close>, and
  \<open>computeOpenSize_range\<close> below shows that the computed size lies in the positive
  range of a 32-bit \<open>int\<close>.
\<close>

type_synonym int32 = "32 word"

text \<open>
  Modelled from the spec: the address type \<open>DiskLoc\<close> (declared in \<open>diskloc.h\<close>, which is
  not part of the sources at hand) is a 32-bit file ordinal and a 32-bit byte offset.
  \<open>getOfs\<close> is the accessor used by \<open>allocExtentArea\<close>.
\<close>

datatype DiskLoc = DiskLoc (getA: int32) (getOfs: int32)

text \<open>
  Modelled from the spec: the fields of \<open>DataFileHeader\<close> (declared in \<open>data_file.h\<close>,
  absent). The type of the version tag is left open; the reserved bytes up to offset 8192
  carry no information and are omitted.
\<close>

record 'v DataFileHeader =
  version :: 'v
  fileLength :: int32
  unused :: DiskLoc
  unusedLength :: int32
  freeListStart :: DiskLoc
  freeListEnd :: DiskLoc

text \<open>
  Modelled from the spec: \<open>HeaderSize\<close>, an enumerator of \<open>DataFileHeader\<close> in
  \<open>data_file.h\<close> (absent). The source asserts \<open>sizeof(DataFileHeader)-4 == 8192\<close> statically
  and \<open>HeaderSize == 8192\<close> in \<open>init\<close>.
\<close>

definition HeaderSize :: int32 where
  "HeaderSize = 8192"

text \<open>
  What the absent headers declare and \<open>data_file.cpp\<close> uses without defining: the value
  built by the default constructor \<open>DiskLoc()\<close> and by \<open>DiskLoc::Null()\<close> (the null
  sentinel), \<open>DataFileVersion::defaultForNewFiles()\<close>, and the predicate
  \<open>DataFileHeader::uninitialized()\<close>. They are parameters of the model.
\<close>

record 'v decls =
  DiskLoc_Null :: DiskLoc
  defaultForNewFiles :: 'v
  uninitialized :: "'v DataFileHeader \<Rightarrow> bool"

text \<open>
  The process-wide state the functions consult: \<open>mmapv1GlobalOptions.smallfiles\<close> and
  \<open>.prealloc\<close>, whether the build has 4-byte pointers (\<open>sizeof(int*) == 4\<close>),
  \<open>inShutdown()\<close>, and \<open>txn->lockState()->isWriteLocked()\<close>.
\<close>

record env =
  smallfiles :: bool
  prealloc :: bool
  ptr32 :: bool
  inShutdown :: bool
  isWriteLocked :: bool

text \<open>
  Failures that abort the operation: \<open>massert\<close>/\<open>msgasserted\<close> and \<open>uassert\<close> with their
  codes, \<open>verify\<close> with the line of the source it stands on, and \<open>invariant\<close>.
\<close>

datatype fatal =
  MsgAsserted nat
| UAsserted nat
| VerifyFailed nat
| InvariantFailed nat

text \<open>The \<open>Status\<close> values \<open>openExisting\<close> returns.\<close>

datatype Status = OK | InvalidPath | InternalError

text \<open>
  Calls into the collaborators, in the order they are made: the durability subsystem
  (\<open>createdFile\<close>, \<open>writing\<close>/\<open>writingInt\<close> on a field or on the whole header, the commit
  of a \<open>WriteUnitOfWork\<close>), the file allocator (\<open>requestAllocation\<close>) and the mapped file
  (\<open>mmf.open\<close>, \<open>mmf.create\<close>).
\<close>

datatype hfield = FUnused | FUnusedLength | FFreeListStart | FFreeListEnd | FWholeHeader

datatype event =
  CreatedFile string int32
| Writing hfield
| Commit
| RequestAllocation string int
| MmfOpen string
| MmfCreate string nat

section \<open>Size policy\<close>

definition maxSize :: "env \<Rightarrow> int" where
  "maxSize e =
     (if ptr32 e then 512 * 1024 * 1024
      else if smallfiles e then drop_bit 2 0x7ff00000
      else 0x7ff00000)"

text \<open>
  \<open>(64*1024*1024) << fileNo\<close> shifts a 32-bit \<open>int\<close>; for \<open>0 \<le> fileNo \<le> 4\<close> the result is
  at most \<open>2^30\<close>. The member \<open>fileNo\<close> is an \<open>int\<close> that nothing keeps from being
  negative, and C++ leaves a shift by a negative count undefined. The model takes what
  the machine's 32-bit shift does there: the count is the low five bits of \<open>fileNo\<close> and
  the result keeps its low 32 bits, so for \<open>fileNo = -1\<close> the count is 31 and the result
  is 0. \<open>>> 2\<close> on a signed value is the arithmetic shift. The member \<open>fileNo\<close> is the
  argument \<open>fno\<close>.
\<close>

definition defaultSize :: "env \<Rightarrow> int32 \<Rightarrow> int" where
  "defaultSize e fno =
     (let sz = (if sint fno \<le> 4
                then sint (push_bit (unat fno mod 32) (64 * 1024 * 1024 :: int32))
                else 0x7ff00000)
      in if smallfiles e then drop_bit 2 sz else sz)"

text \<open>
  The loop of \<open>DataFile::open\<close> (lines 121-128); \<open>break\<close> leaves it with \<open>maxSize()\<close>. The
  local \<open>size\<close> is written \<open>sz\<close>. The loop does not end from every \<open>sz\<close> (from 0 it
  doubles for ever), so it returns an option: \<open>None\<close> is "does not return".
\<close>

partial_function (option) open_size_loop :: "int \<Rightarrow> int \<Rightarrow> int \<Rightarrow> int option" where
  "open_size_loop maxS minSize sz =
     (if sz < minSize then
        (if sz < maxS div 2 then open_size_loop maxS minSize (sz * 2)
         else Some maxS)
      else Some sz)"

declare open_size_loop.simps [code]

text \<open>Lines 120-130: the size \<open>open\<close> has computed before it maps or preallocates.\<close>

definition computeOpenSize :: "env \<Rightarrow> int32 \<Rightarrow> int \<Rightarrow> int option" where
  "computeOpenSize e fno minSize =
     map_option (\<lambda>sz. if sz > maxSize e then maxSize e else sz)
       (open_size_loop (maxSize e) minSize (defaultSize e fno))"

section \<open>The data file\<close>

text \<open>
  \<open>_mb\<close> is the base of the mapped view, where the header lives: \<open>None\<close> is the null
  pointer, \<open>Some h\<close> a view whose first bytes are the header \<open>h\<close>; \<open>header()\<close> is \<open>_mb\<close>
  cast to a header pointer.
\<close>

record 'v DataFile =
  fileNo :: int32
  mb :: "'v DataFileHeader option"

text \<open>
  What the file system and the mapped-file primitive answer (both external):
  \<open>boost::filesystem::exists\<close>, \<open>mmf.open\<close>, \<open>mmf.create\<close>, \<open>mmf.getView()\<close> and
  \<open>mmf.length()\<close> (an \<open>unsigned long long\<close>). \<open>open\<close> reads its local \<open>sz\<close> again after
  \<open>mmf.create(filename, sz, false)\<close>, so \<open>mmf_create\<close> returns the length along with
  its result.
\<close>

record 'v files =
  exists_file :: "string \<Rightarrow> bool"
  mmf_open :: "string \<Rightarrow> bool"
  mmf_create :: "string \<Rightarrow> nat \<Rightarrow> bool \<times> nat"
  mmf_getView :: "'v DataFileHeader option"
  mmf_length :: nat

definition data_file_check :: "env \<Rightarrow> 'a option \<Rightarrow> fatal option" where
  "data_file_check e m =
     (if ptr32 e then (if m \<noteq> None then None else Some (UAsserted 10084))
      else (if m \<noteq> None then None else Some (UAsserted 10085)))"

text \<open>
  \<open>openExisting\<close>: \<open>checked\<close> is the end of the function, from \<open>data_file_check\<close> on
  (lines 112-113), reached past the size tests with or without the log line.
\<close>

definition openExisting ::
  "env \<Rightarrow> 'v files \<Rightarrow> 'v DataFile \<Rightarrow> string \<Rightarrow> fatal + ('v DataFile \<times> Status \<times> event list)" where
  "openExisting e fs d filename =
     (if mb d \<noteq> None then Inl (VerifyFailed 89)
      else if \<not> exists_file fs filename then Inr (d, InvalidPath, [])
      else if \<not> mmf_open fs filename then Inr (d, InternalError, [MmfOpen filename])
      else
        let d1 = d\<lparr>mb := mmf_getView fs\<rparr> in
        if mb d1 = None then Inl (VerifyFailed 96)
        else
          let sz = mmf_length fs;
              checked = (case data_file_check e (mb d1) of
                           Some err \<Rightarrow> Inl err
                         | None \<Rightarrow> Inr (d1, OK, [MmfOpen filename]))
          in
            if \<not> sz \<le> 0x7fffffff then Inl (VerifyFailed 98)
            else if \<not> sz mod 4096 = 0 then Inl (VerifyFailed 99)
            else if sz < 64 * 1024 * 1024 \<and> \<not> smallfiles e then
              (if sz \<ge> 16 * 1024 * 1024 \<and> sz mod (1024 * 1024) = 0 then checked
               else Inl (VerifyFailed 109))
            else checked)"

section \<open>The header: upgrade and initialization\<close>

text \<open>
  Each function returns the header it leaves behind and the calls it made into the
  durability subsystem. \<open>invariant\<close> and \<open>verify\<close> abort.
\<close>

definition checkUpgrade ::
  "'v decls \<Rightarrow> 'v DataFileHeader \<Rightarrow> fatal + ('v DataFileHeader \<times> event list)" where
  "checkUpgrade dc h =
     (if freeListStart h = DiskLoc 0 0 then
        (if \<not> freeListEnd h = DiskLoc 0 0 then Inl (InvariantFailed 221)
         else
           let h1 = h\<lparr>freeListStart := DiskLoc_Null dc\<rparr>;
               h2 = h1\<lparr>freeListEnd := DiskLoc_Null dc\<rparr>
           in Inr (h2, [Writing FFreeListStart, Writing FFreeListEnd, Commit]))
      else Inr (h, []))"

text \<open>
  \<open>getDur().writing(this)\<close> hands back the header itself, so \<open>h\<close> and \<open>this\<close> are one
  object: the \<open>fileLength\<close> read on line 209 is the value written on line 205. The
  second \<open>verify\<close> (line 208) compares the offset of the member \<open>data\<close> with
  \<open>HeaderSize\<close>; that is the layout the static assertion on line 48 fixes. The
  calls to \<open>log()\<close> and \<open>dump()\<close> are diagnostics and leave no trace here.
\<close>

definition init ::
  "env \<Rightarrow> 'v decls \<Rightarrow> 'v DataFileHeader \<Rightarrow> int32 \<Rightarrow> int32 \<Rightarrow> string
     \<Rightarrow> fatal + ('v DataFileHeader \<times> event list)" where
  "init e dc h fileno filelength filename =
     (if uninitialized dc h then
        (if \<not> (sint filelength > 32768) then Inl (MsgAsserted 13640)
         else if \<not> isWriteLocked e then Inr (h, [])
         else if \<not> HeaderSize = 8192 then Inl (VerifyFailed 203)
         else
           let h1 = h\<lparr>fileLength := filelength\<rparr>;
               h2 = h1\<lparr>version := defaultForNewFiles dc\<rparr>;
               h3 = h2\<lparr>unused := DiskLoc fileno HeaderSize\<rparr>;
               h4 = h3\<lparr>unusedLength := fileLength h3 - HeaderSize - 16\<rparr>;
               h5 = h4\<lparr>freeListStart := DiskLoc_Null dc\<rparr>;
               h6 = h5\<lparr>freeListEnd := DiskLoc_Null dc\<rparr>
           in Inr (h6, [CreatedFile filename filelength, Writing FWholeHeader]))
      else checkUpgrade dc h)"

section \<open>Opening and allocating\<close>

text \<open>
  Lines 132-151 of \<open>DataFile::open\<close>, from the size computed before them. The
  \<open>unsigned long long sz\<close> is the size modulo \<open>2^64\<close>; \<open>(int) sz\<close> is its low 32 bits.
  Once \<open>data_file_check\<close> has passed, \<open>_mb\<close> is not null: the branch for a null
  \<open>header()\<close> below is never taken.
\<close>

definition open_with_size ::
  "env \<Rightarrow> 'v decls \<Rightarrow> 'v files \<Rightarrow> 'v DataFile \<Rightarrow> string \<Rightarrow> int \<Rightarrow> bool
     \<Rightarrow> fatal + ('v DataFile \<times> event list)" where
  "open_with_size e dc fs d filename sz preallocateOnly =
     (if \<not> (sz \<ge> 64 * 1024 * 1024 \<or> smallfiles e) then Inl (VerifyFailed 132)
      else if \<not> sz mod 4096 = 0 then Inl (VerifyFailed 133)
      else if preallocateOnly then
        (if prealloc e then Inr (d, [RequestAllocation filename sz])
         else Inr (d, []))
      else if mb d \<noteq> None then Inl (VerifyFailed 143)
      else
        let (created, usz) = mmf_create fs filename (nat (sz mod 2 ^ 64));
            d1 = (if created then d\<lparr>mb := mmf_getView fs\<rparr> else d)
        in
          if \<not> usz \<le> 0x7fffffff then Inl (VerifyFailed 147)
          else
            (case data_file_check e (mb d1) of
               Some err \<Rightarrow> Inl err
             | None \<Rightarrow>
                 (case mb d1 of
                    None \<Rightarrow> Inl (UAsserted 10085)
                  | Some h \<Rightarrow>
                      (case init e dc h (fileNo d1) (of_nat usz) filename of
                         Inl err \<Rightarrow> Inl err
                       | Inr (h', evs) \<Rightarrow>
                           Inr (d1\<lparr>mb := Some h'\<rparr>,
                                MmfCreate filename (nat (sz mod 2 ^ 64)) # evs)))))"

definition DataFile_open ::
  "env \<Rightarrow> 'v decls \<Rightarrow> 'v files \<Rightarrow> 'v DataFile \<Rightarrow> string \<Rightarrow> int \<Rightarrow> bool
     \<Rightarrow> (fatal + ('v DataFile \<times> event list)) option" where
  "DataFile_open e dc fs d filename minSize preallocateOnly =
     map_option (\<lambda>sz. open_with_size e dc fs d filename sz preallocateOnly)
       (computeOpenSize e (fileNo d) minSize)"

text \<open>
  The bump allocator. \<open>size <= header()->unusedLength\<close> compares signed values;
  \<open>offset + size\<close> and \<open>h->unusedLength - size\<close> are 32-bit.
\<close>

definition allocExtentArea ::
  "env \<Rightarrow> 'v DataFile \<Rightarrow> int32 \<Rightarrow> fatal + ('v DataFile \<times> DiskLoc \<times> event list)" where
  "allocExtentArea e d n =
     (if inShutdown e then Inl (MsgAsserted 10357)
      else
        (case mb d of
           None \<Rightarrow> Inl (MsgAsserted 10359)
         | Some h \<Rightarrow>
             if \<not> sint n \<le> sint (unusedLength h) then Inl (VerifyFailed 163)
             else
               let offset = getOfs (unused h);
                   h1 = h\<lparr>unused := DiskLoc (fileNo d) (offset + n)\<rparr>;
                   h2 = h1\<lparr>unusedLength := unusedLength h1 - n\<rparr>
               in Inr (d\<lparr>mb := Some h2\<rparr>, DiskLoc (fileNo d) offset,
                       [Writing FUnused, Writing FUnusedLength])))"

section \<open>The specification's own formulations\<close>

text \<open>
  The header invariant in the words of the specification,
  \<open>unused.offset + unusedLength == fileLength\<close>, evaluated as the program would, and the
  same with the 16 bytes that \<open>init\<close> keeps back.
\<close>

definition header_invariant :: "'v DataFileHeader \<Rightarrow> bool" where
  "header_invariant h \<longleftrightarrow> getOfs (unused h) + unusedLength h = fileLength h"

definition header_invariant_slack :: "'v DataFileHeader \<Rightarrow> bool" where
  "header_invariant_slack h \<longleftrightarrow> getOfs (unused h) + unusedLength h = fileLength h - 16"

text \<open>
  The growth algorithm in the words of the specification: start from a candidate; while
  it is smaller than \<open>minSize\<close>, double it, unless the test \<open>jump\<close> says otherwise, in
  which case jump to \<open>maxSize()\<close> and stop; finally clamp to \<open>maxSize()\<close>. The state of the
  loop is the candidate and whether the loop has stopped.
\<close>

definition spec_grow :: "(int \<Rightarrow> int \<Rightarrow> bool) \<Rightarrow> int \<Rightarrow> int \<Rightarrow> int \<Rightarrow> int option" where
  "spec_grow jump maxS minSize c =
     map_option fst
       (while_option (\<lambda>(c, stopped). \<not> stopped \<and> c < minSize)
          (\<lambda>(c, stopped). if jump maxS c then (maxS, True) else (2 * c, False))
          (c, False))"

definition spec_openSize :: "(int \<Rightarrow> int \<Rightarrow> bool) \<Rightarrow> env \<Rightarrow> int32 \<Rightarrow> int \<Rightarrow> int option" where
  "spec_openSize jump e fno minSize =
     map_option (min (maxSize e)) (spec_grow jump (maxSize e) minSize (defaultSize e fno))"

text \<open>"Doubling would exceed half of \<open>maxSize()\<close>", as the specification puts it.\<close>

definition doubling_exceeds_half :: "int \<Rightarrow> int \<Rightarrow> bool" where
  "doubling_exceeds_half maxS c \<longleftrightarrow> 2 * c > maxS div 2"

text \<open>The candidate has reached half of \<open>maxSize()\<close>, as the source tests it.\<close>

definition reached_half :: "int \<Rightarrow> int \<Rightarrow> bool" where
  "reached_half maxS c \<longleftrightarrow> \<not> c < maxS div 2"

section \<open>A worked scenario\<close>

text \<open>
  File ordinal 2 of a database, small-files mode off, a 64-bit build. The parameters are
  given one instance: the version tag is a number, 0 on a header never initialized and 4
  on a new file, and the null sentinel is the pair \<open>(-1, 0)\<close>.
\<close>

definition ex_env :: env where
  "ex_env = \<lparr>smallfiles = False, prealloc = True, ptr32 = False, inShutdown = False,
              isWriteLocked = True\<rparr>"

definition ex_decls :: "nat decls" where
  "ex_decls = \<lparr>DiskLoc_Null = DiskLoc (- 1) 0, defaultForNewFiles = 4,
                uninitialized = (\<lambda>h. version h = 0)\<rparr>"

definition ex_blank :: "nat DataFileHeader" where
  "ex_blank = \<lparr>version = 0, fileLength = 0, unused = DiskLoc 0 0, unusedLength = 0,
                freeListStart = DiskLoc 0 0, freeListEnd = DiskLoc 0 0\<rparr>"

text \<open>The header of the 256 MiB file once initialized, and after one allocation of 1000 bytes.\<close>

definition ex_fresh :: "nat DataFileHeader" where
  "ex_fresh = \<lparr>version = 4, fileLength = 268435456, unused = DiskLoc 2 8192,
                unusedLength = 268427248, freeListStart = DiskLoc (- 1) 0,
                freeListEnd = DiskLoc (- 1) 0\<rparr>"

definition ex_bumped :: "nat DataFileHeader" where
  "ex_bumped = ex_fresh\<lparr>unused := DiskLoc 2 9192, unusedLength := 268426248\<rparr>"

text \<open>Headers written before the null sentinel existed: a legacy one and a torn one.\<close>

definition ex_legacy :: "nat DataFileHeader" where
  "ex_legacy = ex_fresh\<lparr>freeListStart := DiskLoc 0 0, freeListEnd := DiskLoc 0 0\<rparr>"

definition ex_torn :: "nat DataFileHeader" where
  "ex_torn = ex_fresh\<lparr>freeListStart := DiskLoc 0 0, freeListEnd := DiskLoc 2 8192\<rparr>"

definition ex_unmapped :: "nat DataFile" where
  "ex_unmapped = \<lparr>fileNo = 2, mb = None\<rparr>"

definition ex_file :: "nat DataFile" where
  "ex_file = \<lparr>fileNo = 2, mb = Some ex_fresh\<rparr>"

text \<open>
  Three answers of the file system: no file at all; a file that cannot be mapped; a
  mapped file of 268435457 bytes.
\<close>

definition ex_fs_absent :: "nat files" where
  "ex_fs_absent = \<lparr>exists_file = (\<lambda>f. False), mmf_open = (\<lambda>f. False),
                    mmf_create = (\<lambda>f n. (True, n)), mmf_getView = None, mmf_length = 0\<rparr>"

definition ex_fs_unmappable :: "nat files" where
  "ex_fs_unmappable = ex_fs_absent\<lparr>exists_file := (\<lambda>f. f = ''db.2'')\<rparr>"

definition ex_fs_misaligned :: "nat files" where
  "ex_fs_misaligned = \<lparr>exists_file = (\<lambda>f. f = ''db.2''), mmf_open = (\<lambda>f. f = ''db.2''),
                        mmf_create = (\<lambda>f n. (True, n)), mmf_getView = Some ex_fresh,
                        mmf_length = 268435457\<rparr>"

section \<open>Properties of the size policy\<close>

lemma maxSize_cases:
  "maxSize e = 536870912 \<or> maxSize e = 536608768 \<or> maxSize e = 2146435072"
  by (simp add: maxSize_def drop_bit_eq_div)

lemma maxSize_dvd: "4096 dvd maxSize e"
  using maxSize_cases [of e] by (elim disjE) simp_all

lemma maxSize_lower: "536608768 \<le> maxSize e"
  using maxSize_cases [of e] by (elim disjE) simp_all

lemma maxSize_lower_large: "\<not> smallfiles e \<Longrightarrow> 536870912 \<le> maxSize e"
  by (simp add: maxSize_def)

lemma maxSize_upper: "maxSize e \<le> 2146435072"
  using maxSize_cases [of e] by (elim disjE) simp_all

lemma fileNo_cases:
  fixes fno :: int32
  assumes "0 \<le> sint fno"
  shows "fno = 0 \<or> fno = 1 \<or> fno = 2 \<or> fno = 3 \<or> fno = 4 \<or> 4 < sint fno"
proof -
  have w: "fno = word_of_int (sint fno)" by simp
  have "sint fno = 0 \<or> sint fno = 1 \<or> sint fno = 2 \<or> sint fno = 3 \<or> sint fno = 4
          \<or> 4 < sint fno"
    using assms by linarith
  then show ?thesis
  proof (elim disjE)
    assume "sint fno = 0" with w have "fno = word_of_int 0" by simp
    then show ?thesis by simp
  next
    assume "sint fno = 1" with w have "fno = word_of_int 1" by simp
    then show ?thesis by simp
  next
    assume "sint fno = 2" with w have "fno = word_of_int 2" by simp
    then show ?thesis by simp
  next
    assume "sint fno = 3" with w have "fno = word_of_int 3" by simp
    then show ?thesis by simp
  next
    assume "sint fno = 4" with w have "fno = word_of_int 4" by simp
    then show ?thesis by simp
  next
    assume "4 < sint fno" then show ?thesis by simp
  qed
qed

lemma defaultSize_cases:
  assumes "0 \<le> sint fno"
  shows "defaultSize e fno \<in> {16777216, 33554432, 67108864, 134217728, 268435456,
           536870912, 1073741824, 536608768, 2146435072}"
  using fileNo_cases [OF assms]
  by (elim disjE) (simp_all add: defaultSize_def drop_bit_eq_div)

lemma defaultSize_pos: "0 \<le> sint fno \<Longrightarrow> 0 < defaultSize e fno"
  using defaultSize_cases [of fno e] by auto

lemma defaultSize_dvd: "0 \<le> sint fno \<Longrightarrow> 4096 dvd defaultSize e fno"
  using defaultSize_cases [of fno e] by auto

lemma defaultSize_upper: "0 \<le> sint fno \<Longrightarrow> defaultSize e fno \<le> 2146435072"
  using defaultSize_cases [of fno e] by auto

lemma defaultSize_lower_large:
  assumes "0 \<le> sint fno" and "\<not> smallfiles e"
  shows "67108864 \<le> defaultSize e fno"
  using fileNo_cases [OF assms(1)] assms(2)
  by (elim disjE) (simp_all add: defaultSize_def)

text \<open>
  From a positive candidate the loop returns: either \<open>maxSize()\<close>, or a multiple of the
  candidate that has reached \<open>minSize\<close>. Doubling happens only below \<open>maxSize()/2\<close>, so
  the result is bounded by the larger of the candidate and \<open>maxSize()\<close>.
\<close>

lemma open_size_loop_result:
  assumes "0 < c"
  shows "\<exists>r. open_size_loop maxS minSize c = Some r
           \<and> (r = maxS \<or> (minSize \<le> r \<and> c \<le> r \<and> r \<le> max c maxS \<and> c dvd r))"
  using assms
proof (induction "nat (maxS div 2 - c)" arbitrary: c rule: less_induct)
  case less
  show ?case
  proof (cases "c < minSize \<and> c < maxS div 2")
    case True
    have "nat (maxS div 2 - c * 2) < nat (maxS div 2 - c)"
      using True less.prems by linarith
    moreover have "0 < c * 2" using less.prems by simp
    ultimately obtain r where r: "open_size_loop maxS minSize (c * 2) = Some r"
      and d: "r = maxS \<or> (minSize \<le> r \<and> c * 2 \<le> r \<and> r \<le> max (c * 2) maxS \<and> c * 2 dvd r)"
      using less.hyps [of "c * 2"] by blast
    have "open_size_loop maxS minSize c = Some r"
      using True r by (subst open_size_loop.simps) simp
    moreover have "r = maxS \<or> (minSize \<le> r \<and> c \<le> r \<and> r \<le> max c maxS \<and> c dvd r)"
    proof (rule disjE [OF d])
      assume "r = maxS" then show ?thesis by simp
    next
      assume a: "minSize \<le> r \<and> c * 2 \<le> r \<and> r \<le> max (c * 2) maxS \<and> c * 2 dvd r"
      have "c dvd r" using a by (metis dvd_mult_left)
      moreover have "c * 2 \<le> maxS" using True by linarith
      ultimately show ?thesis using a less.prems by auto
    qed
    ultimately show ?thesis by blast
  next
    case False
    then show ?thesis
      by (subst open_size_loop.simps) auto
  qed
qed

text \<open>The computed size exists and lies within the positive range of a 32-bit \<open>int\<close>.\<close>

lemma computeOpenSize_range:
  assumes "0 \<le> sint fno"
  shows "\<exists>sz. computeOpenSize e fno minSize = Some sz \<and> 0 < sz \<and> sz \<le> 2146435072"
proof -
  obtain r where r: "open_size_loop (maxSize e) minSize (defaultSize e fno) = Some r"
    and d: "r = maxSize e \<or> defaultSize e fno \<le> r"
    using open_size_loop_result [OF defaultSize_pos [OF assms], of "maxSize e" minSize e]
    by blast
  have "0 < r"
    using d defaultSize_pos [OF assms, of e] maxSize_lower [of e] by auto
  then show ?thesis
    using r maxSize_lower [of e] maxSize_upper [of e] by (auto simp: computeOpenSize_def)
qed

text \<open>The loop of the source and the loop in the specification's form, with the source's test.\<close>

lemma open_size_loop_spec_grow:
  assumes "0 < c"
  shows "open_size_loop maxS minSize c = spec_grow reached_half maxS minSize c"
  using assms
proof (induction "nat (maxS div 2 - c)" arbitrary: c rule: less_induct)
  case less
  show ?case
  proof (cases "c < minSize")
    case False
    then show ?thesis
      by (subst open_size_loop.simps, simp add: spec_grow_def, subst while_option_unfold, simp)
  next
    case True
    show ?thesis
    proof (cases "c < maxS div 2")
      case False
      have "spec_grow reached_half maxS minSize c = Some maxS"
        unfolding spec_grow_def
        using True False
        by (subst while_option_unfold, simp add: reached_half_def,
            subst while_option_unfold, auto)
      moreover have "open_size_loop maxS minSize c = Some maxS"
        using True False by (subst open_size_loop.simps) simp
      ultimately show ?thesis by simp
    next
      case half: True
      have m: "nat (maxS div 2 - c * 2) < nat (maxS div 2 - c)"
        using half less.prems by linarith
      have "open_size_loop maxS minSize c = open_size_loop maxS minSize (c * 2)"
        using True half by (subst open_size_loop.simps) simp
      also have "\<dots> = spec_grow reached_half maxS minSize (c * 2)"
        using less.hyps [OF m] less.prems by simp
      also have "\<dots> = spec_grow reached_half maxS minSize c"
        unfolding spec_grow_def
        using True half
        by (subst (2) while_option_unfold) (simp add: reached_half_def mult.commute)
      finally show ?thesis .
    qed
  qed
qed

text \<open>Signed reading of the 32-bit arithmetic where it does not wrap.\<close>

lemma sint_sub_slack:
  fixes L :: int32
  assumes "32768 < sint L"
  shows "sint (L - 8192 - 16) = sint L - 8192 - 16"
proof -
  have up: "sint L < 2 ^ 31" using sint_lt [of L] by simp
  have "sint (L - 8192 - 16) = signed_take_bit 31 (sint L - 8208)"
    by (simp add: sint_word_ariths)
  also have "\<dots> = sint L - 8208"
    using assms up by (simp add: signed_take_bit_int_eq_self)
  finally show ?thesis by simp
qed

lemma sint_add_no_wrap:
  fixes a n :: int32
  assumes "0 \<le> sint n" and "sint a + sint n < 2 ^ 31"
  shows "sint (a + n) = sint a + sint n"
proof -
  have lo: "- (2 ^ 31) \<le> sint a" using sint_ge [of a] by simp
  have "sint (a + n) = signed_take_bit 31 (sint a + sint n)"
    by (simp add: sint_word_ariths)
  also have "\<dots> = sint a + sint n"
    using assms lo by (simp add: signed_take_bit_int_eq_self)
  finally show ?thesis .
qed

lemma sint_sub_no_wrap:
  fixes u n :: int32
  assumes "0 \<le> sint n" and "sint n \<le> sint u"
  shows "sint (u - n) = sint u - sint n"
proof -
  have up: "sint u < 2 ^ 31" using sint_lt [of u] by simp
  have "sint (u - n) = signed_take_bit 31 (sint u - sint n)"
    by (simp add: sint_word_ariths)
  also have "\<dots> = sint u - sint n"
    using assms up by (simp add: signed_take_bit_int_eq_self)
  finally show ?thesis .
qed

section \<open>The bump allocator\<close>

text \<open>
  C1. When the process is not shutting down, the header exists and \<open>n \<le> unusedLength\<close>,
  \<open>allocExtentArea(n)\<close> returns the location \<open>(fileNo, oldOffset)\<close>, the cursor before the
  call, and leaves \<open>unused.offset\<close> increased by \<open>n\<close> and \<open>unusedLength\<close> decreased by
  \<open>n\<close>. The sums are those of the program's 32-bit \<open>int\<close>; where \<open>n\<close> is not negative and
  \<open>offset + unusedLength\<close> fits, they are the sums of the signed values as well.
\<close>

theorem allocExtentArea_bump:
  assumes "\<not> inShutdown e" and "mb d = Some h" and "sint n \<le> sint (unusedLength h)"
  shows "\<exists>d' h' evs.
           allocExtentArea e d n = Inr (d', DiskLoc (fileNo d) (getOfs (unused h)), evs)
           \<and> mb d' = Some h'
           \<and> getOfs (unused h') = getOfs (unused h) + n
           \<and> unusedLength h' = unusedLength h - n
           \<and> (0 \<le> sint n \<and> sint (getOfs (unused h)) + sint (unusedLength h) < 2 ^ 31 \<longrightarrow>
                sint (getOfs (unused h')) = sint (getOfs (unused h)) + sint n
                \<and> sint (unusedLength h') = sint (unusedLength h) - sint n)"
proof -
  let ?h' = "h\<lparr>unused := DiskLoc (fileNo d) (getOfs (unused h) + n),
               unusedLength := unusedLength h - n\<rparr>"
  have run: "allocExtentArea e d n =
      Inr (d\<lparr>mb := Some ?h'\<rparr>, DiskLoc (fileNo d) (getOfs (unused h)),
           [Writing FUnused, Writing FUnusedLength])"
    using assms by (simp add: allocExtentArea_def Let_def)
  have signed: "sint (getOfs (unused h) + n) = sint (getOfs (unused h)) + sint n
      \<and> sint (unusedLength h - n) = sint (unusedLength h) - sint n"
    if "0 \<le> sint n" and "sint (getOfs (unused h)) + sint (unusedLength h) < 2 ^ 31"
  proof -
    have "sint (getOfs (unused h)) + sint n < 2 ^ 31"
      using that assms(3) by linarith
    then show ?thesis
      using that(1) assms(3) by (simp add: sint_add_no_wrap sint_sub_no_wrap)
  qed
  show ?thesis
    using run signed by simp
qed

theorem allocExtentArea_bump_witness:
  "\<not> inShutdown ex_env \<and> mb ex_file = Some ex_fresh
   \<and> sint (1000 :: int32) \<le> sint (unusedLength ex_fresh)
   \<and> allocExtentArea ex_env ex_file 1000 =
       Inr (ex_file\<lparr>mb := Some ex_bumped\<rparr>, DiskLoc 2 8192,
            [Writing FUnused, Writing FUnusedLength])"
proof -
  have a: "\<not> inShutdown ex_env" by (simp add: ex_env_def)
  have b: "mb ex_file = Some ex_fresh" by (simp add: ex_file_def)
  have c: "sint (1000 :: int32) \<le> sint (unusedLength ex_fresh)" by (simp add: ex_fresh_def)
  obtain d' h' evs where
    "allocExtentArea ex_env ex_file 1000 =
       Inr (d', DiskLoc (fileNo ex_file) (getOfs (unused ex_fresh)), evs)"
    using allocExtentArea_bump [OF a b c] by blast
  moreover have "allocExtentArea ex_env ex_file 1000 =
       Inr (ex_file\<lparr>mb := Some ex_bumped\<rparr>, DiskLoc 2 8192,
            [Writing FUnused, Writing FUnusedLength])"
    by (simp add: allocExtentArea_def ex_env_def ex_file_def ex_fresh_def ex_bumped_def)
  ultimately show ?thesis using a b c by simp
qed

text \<open>
  C10. Under the same preconditions the call declares two writes, \<open>unused\<close> and
  \<open>unusedLength\<close>, and leaves \<open>fileLength\<close>, \<open>version\<close>, \<open>freeListStart\<close> and
  \<open>freeListEnd\<close> as they were.
\<close>

theorem allocExtentArea_frame:
  assumes "\<not> inShutdown e" and "mb d = Some h" and "sint n \<le> sint (unusedLength h)"
  shows "\<exists>d' loc h'.
           allocExtentArea e d n = Inr (d', loc, [Writing FUnused, Writing FUnusedLength])
           \<and> mb d' = Some h' \<and> fileNo d' = fileNo d
           \<and> fileLength h' = fileLength h \<and> version h' = version h
           \<and> freeListStart h' = freeListStart h \<and> freeListEnd h' = freeListEnd h"
  using assms by (simp add: allocExtentArea_def Let_def)

theorem allocExtentArea_frame_witness:
  "\<not> inShutdown ex_env \<and> mb ex_file = Some ex_fresh
   \<and> sint (1000 :: int32) \<le> sint (unusedLength ex_fresh)
   \<and> (\<exists>d' loc h'.
         allocExtentArea ex_env ex_file 1000 =
           Inr (d', loc, [Writing FUnused, Writing FUnusedLength])
         \<and> mb d' = Some h' \<and> fileNo d' = fileNo ex_file
         \<and> fileLength h' = fileLength ex_fresh \<and> version h' = version ex_fresh
         \<and> freeListStart h' = freeListStart ex_fresh
         \<and> freeListEnd h' = freeListEnd ex_fresh)"
proof -
  have a: "\<not> inShutdown ex_env" by (simp add: ex_env_def)
  have b: "mb ex_file = Some ex_fresh" by (simp add: ex_file_def)
  have c: "sint (1000 :: int32) \<le> sint (unusedLength ex_fresh)" by (simp add: ex_fresh_def)
  show ?thesis
    using a b c allocExtentArea_frame [OF a b c] by blast
qed

section \<open>Header initialization and upgrade\<close>

text \<open>
  C5. Initializing an uninitialized header with a length \<open>L > 32768\<close> for file ordinal
  \<open>fno\<close>, under a write lock, succeeds, and the header then holds \<open>fileLength = L\<close>,
  \<open>unused = (fno, 8192)\<close>, \<open>unusedLength = L - 8192 - 16\<close> (also as signed values), the
  version tag of new files, and the null sentinel in both free-list pointers.
\<close>

theorem init_round_trip:
  assumes "uninitialized dc h" and "isWriteLocked e" and "32768 < sint L"
  shows "\<exists>h' evs. init e dc h fno L filename = Inr (h', evs)
           \<and> fileLength h' = L
           \<and> unused h' = DiskLoc fno 8192
           \<and> unusedLength h' = L - 8192 - 16
           \<and> sint (unusedLength h') = sint L - 8192 - 16
           \<and> version h' = defaultForNewFiles dc
           \<and> freeListStart h' = DiskLoc_Null dc \<and> freeListEnd h' = DiskLoc_Null dc"
proof -
  have signed: "sint (L - 8192 - 16) = sint L - 8192 - 16"
    using assms(3) by (rule sint_sub_slack)
  show ?thesis
    using assms signed by (simp add: init_def Let_def HeaderSize_def)
qed

theorem init_round_trip_witness:
  "uninitialized ex_decls ex_blank \<and> isWriteLocked ex_env \<and> 32768 < sint (268435456 :: int32)
   \<and> init ex_env ex_decls ex_blank 2 268435456 ''db.2'' =
       Inr (ex_fresh, [CreatedFile ''db.2'' 268435456, Writing FWholeHeader])"
proof -
  have a: "uninitialized ex_decls ex_blank" by (simp add: ex_decls_def ex_blank_def)
  have b: "isWriteLocked ex_env" by (simp add: ex_env_def)
  have c: "32768 < sint (268435456 :: int32)" by simp
  obtain h' evs where "init ex_env ex_decls ex_blank 2 268435456 ''db.2'' = Inr (h', evs)"
    and "fileLength h' = 268435456"
    using init_round_trip [OF a b c] by blast
  moreover have "init ex_env ex_decls ex_blank 2 268435456 ''db.2'' =
       Inr (ex_fresh, [CreatedFile ''db.2'' 268435456, Writing FWholeHeader])"
    by (simp add: init_def HeaderSize_def ex_env_def ex_decls_def ex_blank_def ex_fresh_def)
  ultimately show ?thesis using a b c by simp
qed

text \<open>
  C6. On an uninitialized header with a plausible length, \<open>init\<close> called without the
  write lock returns normally, declares no write and notifies nothing, and the header is
  the one it was given, still uninitialized.
\<close>

theorem init_deferred:
  assumes "uninitialized dc h" and "32768 < sint L" and "\<not> isWriteLocked e"
  shows "init e dc h fno L filename = Inr (h, []) \<and> uninitialized dc h"
  using assms by (simp add: init_def)

theorem init_deferred_witness:
  "uninitialized ex_decls ex_blank \<and> 32768 < sint (268435456 :: int32)
   \<and> \<not> isWriteLocked (ex_env\<lparr>isWriteLocked := False\<rparr>)
   \<and> init (ex_env\<lparr>isWriteLocked := False\<rparr>) ex_decls ex_blank 2 268435456 ''db.2''
       = Inr (ex_blank, [])"
proof -
  have a: "uninitialized ex_decls ex_blank" by (simp add: ex_decls_def ex_blank_def)
  have b: "32768 < sint (268435456 :: int32)" by simp
  have c: "\<not> isWriteLocked (ex_env\<lparr>isWriteLocked := False\<rparr>)" by simp
  show ?thesis
    using a b c init_deferred [OF a b c, of 2 "''db.2''"] by blast
qed

text \<open>
  C7. Provided the null sentinel is not the zero pair: a header whose free-list pointers
  are both \<open>(0,0)\<close> gets both rewritten to the null sentinel, in one committed unit, and a
  second pass over the result writes nothing and changes nothing; a header whose
  \<open>freeListStart\<close> is \<open>(0,0)\<close> and whose \<open>freeListEnd\<close> is not fails the invariant.
\<close>

theorem checkUpgrade_legacy:
  assumes "DiskLoc_Null dc \<noteq> DiskLoc 0 0"
  shows "(freeListStart h = DiskLoc 0 0 \<and> freeListEnd h = DiskLoc 0 0 \<longrightarrow>
            (\<exists>h'. checkUpgrade dc h =
                     Inr (h', [Writing FFreeListStart, Writing FFreeListEnd, Commit])
               \<and> h' = h\<lparr>freeListStart := DiskLoc_Null dc, freeListEnd := DiskLoc_Null dc\<rparr>
               \<and> checkUpgrade dc h' = Inr (h', [])))
       \<and> (freeListStart h = DiskLoc 0 0 \<and> freeListEnd h \<noteq> DiskLoc 0 0 \<longrightarrow>
            checkUpgrade dc h = Inl (InvariantFailed 221))"
  using assms by (simp add: checkUpgrade_def Let_def)

theorem checkUpgrade_legacy_witness:
  "DiskLoc_Null ex_decls \<noteq> DiskLoc 0 0
   \<and> freeListStart ex_legacy = DiskLoc 0 0 \<and> freeListEnd ex_legacy = DiskLoc 0 0
   \<and> checkUpgrade ex_decls ex_legacy =
       Inr (ex_fresh, [Writing FFreeListStart, Writing FFreeListEnd, Commit])
   \<and> checkUpgrade ex_decls ex_fresh = Inr (ex_fresh, [])
   \<and> freeListStart ex_torn = DiskLoc 0 0 \<and> freeListEnd ex_torn \<noteq> DiskLoc 0 0
   \<and> checkUpgrade ex_decls ex_torn = Inl (InvariantFailed 221)"
proof -
  have a: "DiskLoc_Null ex_decls \<noteq> DiskLoc 0 0" by (simp add: ex_decls_def)
  have b: "freeListStart ex_legacy = DiskLoc 0 0 \<and> freeListEnd ex_legacy = DiskLoc 0 0"
    by (simp add: ex_legacy_def)
  have c: "freeListStart ex_torn = DiskLoc 0 0 \<and> freeListEnd ex_torn \<noteq> DiskLoc 0 0"
    by (simp add: ex_torn_def)
  have up: "ex_legacy\<lparr>freeListStart := DiskLoc_Null ex_decls,
                       freeListEnd := DiskLoc_Null ex_decls\<rparr> = ex_fresh"
    by (simp add: ex_legacy_def ex_fresh_def ex_decls_def)
  have "checkUpgrade ex_decls ex_legacy =
          Inr (ex_fresh, [Writing FFreeListStart, Writing FFreeListEnd, Commit])
        \<and> checkUpgrade ex_decls ex_fresh = Inr (ex_fresh, [])"
    using checkUpgrade_legacy [OF a, of ex_legacy] b up by auto
  moreover have "checkUpgrade ex_decls ex_torn = Inl (InvariantFailed 221)"
    using checkUpgrade_legacy [OF a, of ex_torn] c by blast
  ultimately show ?thesis using a b c by blast
qed

section \<open>Opening an existing file\<close>

text \<open>
  C8. On a data file not yet mapped, \<open>openExisting\<close> returns \<open>InvalidPath\<close> when the file
  does not exist and \<open>InternalError\<close> when it exists and \<open>mmf.open\<close> fails. When the file
  exists and is mapped, and its length is not a multiple of 4096 or exceeds
  \<open>2^31 - 1\<close>, the call ends in a failed \<open>verify\<close>, never in a status.
\<close>

theorem openExisting_errors:
  "(mb d = None \<and> \<not> exists_file fs filename \<longrightarrow>
      (\<exists>evs. openExisting e fs d filename = Inr (d, InvalidPath, evs)))
   \<and> (mb d = None \<and> exists_file fs filename \<and> \<not> mmf_open fs filename \<longrightarrow>
      (\<exists>evs. openExisting e fs d filename = Inr (d, InternalError, evs)))
   \<and> (exists_file fs filename \<and> mmf_open fs filename
        \<and> (mmf_length fs mod 4096 \<noteq> 0 \<or> mmf_length fs > 2 ^ 31 - 1) \<longrightarrow>
      (\<exists>l. openExisting e fs d filename = Inl (VerifyFailed l)))"
  by (simp add: openExisting_def Let_def)

theorem openExisting_errors_witness:
  "mb ex_unmapped = None \<and> \<not> exists_file ex_fs_absent ''db.2''
   \<and> openExisting ex_env ex_fs_absent ex_unmapped ''db.2'' = Inr (ex_unmapped, InvalidPath, [])
   \<and> exists_file ex_fs_unmappable ''db.2'' \<and> \<not> mmf_open ex_fs_unmappable ''db.2''
   \<and> openExisting ex_env ex_fs_unmappable ex_unmapped ''db.2'' =
       Inr (ex_unmapped, InternalError, [MmfOpen ''db.2''])
   \<and> exists_file ex_fs_misaligned ''db.2'' \<and> mmf_open ex_fs_misaligned ''db.2''
   \<and> mmf_length ex_fs_misaligned mod 4096 \<noteq> 0
   \<and> openExisting ex_env ex_fs_misaligned ex_unmapped ''db.2'' = Inl (VerifyFailed 99)"
proof -
  have a: "mb ex_unmapped = None \<and> \<not> exists_file ex_fs_absent ''db.2''"
    by (simp add: ex_unmapped_def ex_fs_absent_def)
  have b: "mb ex_unmapped = None \<and> exists_file ex_fs_unmappable ''db.2''
             \<and> \<not> mmf_open ex_fs_unmappable ''db.2''"
    by (simp add: ex_unmapped_def ex_fs_unmappable_def ex_fs_absent_def)
  have c: "exists_file ex_fs_misaligned ''db.2'' \<and> mmf_open ex_fs_misaligned ''db.2''
             \<and> (mmf_length ex_fs_misaligned mod 4096 \<noteq> 0
                  \<or> mmf_length ex_fs_misaligned > 2 ^ 31 - 1)"
    by (simp add: ex_fs_misaligned_def)
  have a': "\<exists>evs. openExisting ex_env ex_fs_absent ex_unmapped ''db.2''
              = Inr (ex_unmapped, InvalidPath, evs)"
    using openExisting_errors [of ex_unmapped ex_fs_absent "''db.2''" ex_env] a by blast
  have b': "\<exists>evs. openExisting ex_env ex_fs_unmappable ex_unmapped ''db.2''
              = Inr (ex_unmapped, InternalError, evs)"
    using openExisting_errors [of ex_unmapped ex_fs_unmappable "''db.2''" ex_env] b by blast
  have c': "\<exists>l. openExisting ex_env ex_fs_misaligned ex_unmapped ''db.2''
              = Inl (VerifyFailed l)"
    using openExisting_errors [of ex_unmapped ex_fs_misaligned "''db.2''" ex_env] c by blast
  have a'': "openExisting ex_env ex_fs_absent ex_unmapped ''db.2''
              = Inr (ex_unmapped, InvalidPath, [])"
    using a' by (simp add: openExisting_def ex_unmapped_def ex_fs_absent_def)
  have b'': "openExisting ex_env ex_fs_unmappable ex_unmapped ''db.2''
              = Inr (ex_unmapped, InternalError, [MmfOpen ''db.2''])"
    using b' by (simp add: openExisting_def ex_unmapped_def ex_fs_unmappable_def
        ex_fs_absent_def)
  have c'': "openExisting ex_env ex_fs_misaligned ex_unmapped ''db.2''
              = Inl (VerifyFailed 99)"
    using c' by (simp add: openExisting_def ex_unmapped_def ex_fs_misaligned_def)
  show ?thesis
    using a b c a'' b'' c'' by (simp add: ex_fs_misaligned_def)
qed

section \<open>The size computed by \<open>open\<close>\<close>




text \<open>
  C4, as the source has it. For every file ordinal \<open>fileNo \<ge> 0\<close> and every \<open>minSize\<close>,
  the size \<open>open\<close> computes is the result of: start from \<open>defaultSize(fileNo)\<close>; while the
  candidate is smaller than \<open>minSize\<close>, double it, unless the candidate has already
  reached half of \<open>maxSize()\<close>, in which case jump to \<open>maxSize()\<close> and stop; finally clamp
  to \<open>maxSize()\<close>.
\<close>

theorem computeOpenSize_algorithm:
  assumes "0 \<le> sint fno"
  shows "computeOpenSize e fno minSize = spec_openSize reached_half e fno minSize"
proof -
  have "open_size_loop (maxSize e) minSize (defaultSize e fno)
          = spec_grow reached_half (maxSize e) minSize (defaultSize e fno)"
    using defaultSize_pos [OF assms] by (rule open_size_loop_spec_grow)
  moreover have "(\<lambda>sz. if sz > maxSize e then maxSize e else sz) = min (maxSize e)"
    by (auto simp: min_def)
  ultimately show ?thesis
    by (simp add: computeOpenSize_def spec_openSize_def)
qed

theorem computeOpenSize_algorithm_witness:
  "0 \<le> sint (0 :: int32)
   \<and> computeOpenSize ex_env 0 629145600 = Some 1073741824
   \<and> spec_openSize reached_half ex_env 0 629145600 = Some 1073741824"
proof -
  have a: "0 \<le> sint (0 :: int32)" by simp
  have "computeOpenSize ex_env 0 629145600 = Some 1073741824"
    by (simp add: computeOpenSize_def defaultSize_def maxSize_def ex_env_def
        open_size_loop.simps)
  then show ?thesis
    using computeOpenSize_algorithm [OF a, of ex_env 629145600] by simp
qed

text \<open>
  C4, as the specification words it ("unless doubling would exceed half of
  \<open>maxSize()\<close>"), fails: for file 0 and a minimum of 600 MiB the source doubles 512 MiB
  to 1 GiB, while the worded algorithm jumps from 512 MiB to \<open>maxSize()\<close>.
\<close>

theorem computeOpenSize_algorithm_counterexample:
  "computeOpenSize ex_env 0 629145600 = Some 1073741824
   \<and> spec_openSize doubling_exceeds_half ex_env 0 629145600 = Some 2146435072
   \<and> computeOpenSize ex_env 0 629145600
       \<noteq> spec_openSize doubling_exceeds_half ex_env 0 629145600"
proof -
  have "computeOpenSize ex_env 0 629145600 = Some 1073741824"
    by (simp add: computeOpenSize_def defaultSize_def maxSize_def ex_env_def
        open_size_loop.simps)
  moreover have "spec_openSize doubling_exceeds_half ex_env 0 629145600 = Some 2146435072"
    by (simp add: spec_openSize_def spec_grow_def defaultSize_def maxSize_def ex_env_def
        doubling_exceeds_half_def while_option_unfold)
  ultimately show ?thesis by simp
qed

section \<open>Preallocation\<close>

text \<open>
  C9, as the source has it. For every file ordinal \<open>fileNo \<ge> 0\<close>, path and \<open>minSize\<close>,
  \<open>open\<close> with \<open>preallocateOnly\<close> set returns normally and leaves the data file as it
  was, with no call to the mapped file and none to the durability subsystem: when the
  option \<open>prealloc\<close> is on its only call is \<open>requestAllocation\<close> for the path and the
  computed size, and when the option is off it calls nothing.
\<close>

theorem open_preallocateOnly:
  assumes "0 \<le> sint (fileNo d)"
  shows "\<exists>sz. computeOpenSize e (fileNo d) minSize = Some sz
           \<and> DataFile_open e dc fs d filename minSize True =
               Some (Inr (d, if prealloc e then [RequestAllocation filename sz] else []))"
proof -
  obtain sz where sz: "computeOpenSize e (fileNo d) minSize = Some sz"
    and lo: "0 < sz" and up: "sz \<le> 2146435072"
    using computeOpenSize_range [OF assms, of e minSize] by blast
  obtain r where r: "open_size_loop (maxSize e) minSize (defaultSize e (fileNo d)) = Some r"
    and d: "r = maxSize e \<or> (defaultSize e (fileNo d) \<le> r \<and> defaultSize e (fileNo d) dvd r)"
    using open_size_loop_result [OF defaultSize_pos [OF assms], of "maxSize e" minSize e]
    by blast
  have eq: "sz = (if r > maxSize e then maxSize e else r)"
    using sz r by (simp add: computeOpenSize_def)
  have "4096 dvd r"
    using d maxSize_dvd [of e] defaultSize_dvd [OF assms, of e] by (auto elim: dvd_trans)
  then have aligned: "sz mod 4096 = 0"
    using eq maxSize_dvd [of e] by (simp add: mod_eq_0_iff_dvd)
  have large: "64 * 1024 * 1024 \<le> sz" if "\<not> smallfiles e"
    using eq d defaultSize_lower_large [OF assms that] maxSize_lower_large [OF that]
    by auto
  have "open_with_size e dc fs d filename sz True =
          Inr (d, if prealloc e then [RequestAllocation filename sz] else [])"
    using aligned large by (auto simp: open_with_size_def)
  then show ?thesis
    using sz by (simp add: DataFile_open_def)
qed

theorem open_preallocateOnly_witness:
  "0 \<le> sint (fileNo ex_unmapped) \<and> prealloc ex_env
   \<and> DataFile_open ex_env ex_decls ex_fs_absent ex_unmapped ''db.2'' 0 True =
       Some (Inr (ex_unmapped, [RequestAllocation ''db.2'' 268435456]))"
proof -
  have a: "0 \<le> sint (fileNo ex_unmapped)" by (simp add: ex_unmapped_def)
  have b: "prealloc ex_env" by (simp add: ex_env_def)
  have c: "computeOpenSize ex_env (fileNo ex_unmapped) 0 = Some 268435456"
    by (simp add: computeOpenSize_def defaultSize_def maxSize_def ex_env_def ex_unmapped_def
        open_size_loop.simps)
  show ?thesis
    using a b c open_preallocateOnly [OF a, of ex_env 0 ex_decls ex_fs_absent "''db.2''"]
    by simp
qed

text \<open>
  C9, as stated, fails: with the option \<open>prealloc\<close> off, \<open>open\<close> with \<open>preallocateOnly\<close>
  set computes 256 MiB for file 2 and returns without requesting anything.
\<close>

theorem open_preallocateOnly_counterexample:
  "computeOpenSize (ex_env\<lparr>prealloc := False\<rparr>) 2 0 = Some 268435456
   \<and> DataFile_open (ex_env\<lparr>prealloc := False\<rparr>) ex_decls ex_fs_absent ex_unmapped ''db.2'' 0 True
       = Some (Inr (ex_unmapped, []))"
  by (simp add: DataFile_open_def open_with_size_def computeOpenSize_def defaultSize_def
      maxSize_def ex_env_def ex_unmapped_def open_size_loop.simps)

section \<open>The header invariant\<close>

text \<open>
  C2, as the source has it. The equation \<open>unused.offset + unusedLength == fileLength - 16\<close>
  holds after the first initialization (an uninitialized header, a length above 32768,
  under a write lock), and every \<open>allocExtentArea\<close> whose preconditions hold takes a
  header that satisfies it to one that satisfies it.
\<close>

theorem header_invariant_slack_kept:
  "(uninitialized dc h \<and> 32768 < sint L \<and> isWriteLocked e \<longrightarrow>
      (\<exists>h' evs. init e dc h fno L filename = Inr (h', evs) \<and> header_invariant_slack h'))
   \<and> (\<not> inShutdown e \<and> mb d = Some h \<and> sint n \<le> sint (unusedLength h)
        \<and> header_invariant_slack h \<longrightarrow>
      (\<exists>d' loc evs h'. allocExtentArea e d n = Inr (d', loc, evs) \<and> mb d' = Some h'
         \<and> header_invariant_slack h'))"
  by (simp add: init_def allocExtentArea_def header_invariant_slack_def Let_def
      HeaderSize_def)

theorem header_invariant_slack_kept_witness:
  "uninitialized ex_decls ex_blank \<and> 32768 < sint (268435456 :: int32)
   \<and> isWriteLocked ex_env
   \<and> (\<exists>h' evs. init ex_env ex_decls ex_blank 2 268435456 ''db.2'' = Inr (h', evs)
         \<and> header_invariant_slack h')
   \<and> \<not> inShutdown ex_env \<and> mb ex_file = Some ex_fresh
   \<and> sint (1000 :: int32) \<le> sint (unusedLength ex_fresh) \<and> header_invariant_slack ex_fresh
   \<and> (\<exists>d' loc evs h'. allocExtentArea ex_env ex_file 1000 = Inr (d', loc, evs)
         \<and> mb d' = Some h' \<and> header_invariant_slack h')"
proof -
  have a: "uninitialized ex_decls ex_blank \<and> 32768 < sint (268435456 :: int32)
             \<and> isWriteLocked ex_env"
    by (simp add: ex_decls_def ex_blank_def ex_env_def)
  have b: "\<not> inShutdown ex_env \<and> mb ex_file = Some ex_fresh
             \<and> sint (1000 :: int32) \<le> sint (unusedLength ex_fresh)
             \<and> header_invariant_slack ex_fresh"
    by (simp add: ex_env_def ex_file_def ex_fresh_def header_invariant_slack_def)
  have "\<exists>h' evs. init ex_env ex_decls ex_blank 2 268435456 ''db.2'' = Inr (h', evs)
          \<and> header_invariant_slack h'"
    using header_invariant_slack_kept
      [of ex_decls ex_blank 268435456 ex_env 2 "''db.2''" ex_file 1000] a
    by blast
  moreover have "\<exists>d' loc evs h'. allocExtentArea ex_env ex_file 1000 = Inr (d', loc, evs)
          \<and> mb d' = Some h' \<and> header_invariant_slack h'"
    using header_invariant_slack_kept
      [of ex_decls ex_fresh 268435456 ex_env 2 "''db.2''" ex_file 1000] b
    by blast
  ultimately show ?thesis using a b by blast
qed

text \<open>
  C2, as stated, fails: after the first initialization of a 256 MiB file,
  \<open>unused.offset + unusedLength\<close> is 268435440, not the file length 268435456.
\<close>

theorem header_invariant_counterexample:
  "init ex_env ex_decls ex_blank 2 268435456 ''db.2'' =
     Inr (ex_fresh, [CreatedFile ''db.2'' 268435456, Writing FWholeHeader])
   \<and> \<not> header_invariant ex_fresh"
  by (simp add: init_def HeaderSize_def header_invariant_def ex_env_def ex_decls_def
      ex_blank_def ex_fresh_def)

end
